theory Spec2Isabelle
  imports Main "HOL-Library.Word" "HOL-Library.AList" "HOL-Library.Multiset"
begin

section \<open>Data model\<close>

text \<open>
  Go's \<open>error\<close> results and run-time panics. A function of the source that can return
  an \<open>error\<close> or panic returns a sum here, \<open>Inl\<close> carrying the failure.
\<close>

datatype failure = Error string | Panic string

text \<open>
  A Go \<open>time.Time\<close>, given by the calendar fields it shows in its own zone, its
  nanoseconds within the second and its zone offset (seconds east of UTC).
\<close>

record Time =
  year :: int
  month :: nat
  day :: nat
  hour :: nat
  minute :: nat
  second :: nat
  nanosecond :: nat
  zoneOffset :: int

text \<open>
  The dynamic values an \<open>interface{}\<close> argument can hold, by dynamic type. Floats carry
  their IEEE bits; a \<open>*time.Time\<close> may be nil; \<open>VNil\<close> is the nil interface and
  \<open>VOther\<close> stands for every remaining dynamic type (given by its type name).
\<close>

datatype gvalue =
    VString string
  | VInt "64 word"
  | VInt8 "8 word"
  | VInt16 "16 word"
  | VInt32 "32 word"
  | VInt64 "64 word"
  | VUint "64 word"
  | VUint8 "8 word"
  | VUint16 "16 word"
  | VUint32 "32 word"
  | VUint64 "64 word"
  | VFloat32 "32 word"
  | VFloat64 "64 word"
  | VBool bool
  | VTimeVal Time
  | VTimePtr "Time option"
  | VNil
  | VOther string

text \<open>
  An edge: the root traversal of a query. Only its \<open>Name\<close> is read by the code under
  study; the rest of the struct is the payload \<open>'e\<close>.
\<close>

record 'e edge =
  Name :: string
  payload :: 'e

text \<open>
  \<open>QueryBuilder\<close>: the root edge, the query-local variables (QueryBuilders again) and the
  optional destination \<open>unmarshalInto\<close> (\<open>None\<close> is Go's nil).
\<close>

datatype ('e, 'd) QueryBuilder =
  QueryBuilder (rootEdge: "'e edge") (variables: "('e, 'd) QueryBuilder list")
    (unmarshalInto: "'d option")

text \<open>
  Modelled from the spec: the method \<open>QueryBuilder.Name\<close> is not among the sources;
  \<open>ensureUniqueQueryNames\<close> calls it to rename an entry, so it returns the builder with
  the name of its root edge replaced.
\<close>

definition QueryBuilder_Name :: "('e, 'd) QueryBuilder \<Rightarrow> string \<Rightarrow> ('e, 'd) QueryBuilder" where
  "QueryBuilder_Name query name =
     QueryBuilder ((rootEdge query)\<lparr>Name := name\<rparr>) (variables query) (unmarshalInto query)"

text \<open>
  Modelled from the spec: \<open>GetName\<close> of the \<open>Operation\<close> interface is not among the
  sources; for a root edge it is the name the edge carries.
\<close>

definition GetName :: "'e edge \<Rightarrow> string" where
  "GetName block = Name block"

text \<open>
  \<open>queryOperation\<close>: the root operations and the query-local variable operations of one
  document. Both hold root edges of QueryBuilders.
\<close>

record 'e queryOperation =
  operations :: "'e edge list"
  op_variables :: "'e edge list"

text \<open>
  What the code under study calls and the sources do not contain, taken as parameters:
  \<^item> \<open>edge_ToDQL\<close>: the \<open>ToDQL\<close> method of a root edge (an \<open>Operation\<close>): a text with
    placeholder markers and the argument values, or a failure;
  \<^item> \<open>strings_Title\<close>, \<open>strings_ToLower\<close>, \<open>Sprintf_v\<close>: Go's \<open>strings.Title\<close>,
    \<open>strings.ToLower\<close> and \<open>fmt.Sprintf("%v", _)\<close>;
  \<^item> \<open>rangeOrder\<close>: the order in which a \<open>range\<close> over a map visits its entries, which
    Go leaves unspecified.
\<close>

record 'e runtime =
  edge_ToDQL :: "'e edge \<Rightarrow> failure + (string \<times> gvalue list)"
  strings_Title :: "string \<Rightarrow> string"
  strings_ToLower :: "string \<Rightarrow> string"
  Sprintf_v :: "gvalue \<Rightarrow> string"
  rangeOrder :: "(nat \<times> gvalue) list \<Rightarrow> (nat \<times> gvalue) list"

section \<open>Formatting\<close>

text \<open>\<open>fmt.Sprintf("%d", n)\<close> for a non-negative \<open>n\<close>: the decimal digits.\<close>

definition digit :: "nat \<Rightarrow> char" where
  "digit d = ''0123456789'' ! d"

function Sprintf_d :: "nat \<Rightarrow> string" where
  "Sprintf_d n =
     (if n < 10 then [digit n] else Sprintf_d (n div 10) @ [digit (n mod 10)])"
  by pat_completeness auto
termination
  by (relation "measure id") auto

declare Sprintf_d.simps [simp del]


section \<open>Name uniqueness\<close>

text \<open>
  The loop of \<open>ensureUniqueQueryNames\<close>: \<open>index\<close> is the position of the head of the
  remaining list, \<open>queryNames\<close> the \<open>map[string]bool\<close> (a missing key reads \<open>false\<close>).
\<close>

fun ensureUniqueQueryNames_loop ::
  "nat \<Rightarrow> (string \<Rightarrow> bool) \<Rightarrow> ('e, 'd) QueryBuilder list \<Rightarrow> ('e, 'd) QueryBuilder list" where
  "ensureUniqueQueryNames_loop index queryNames [] = []"
| "ensureUniqueQueryNames_loop index queryNames (query # queries) =
     (let query' =
        (if queryNames (Name (rootEdge query))
         then QueryBuilder_Name query (Name (rootEdge query) @ ''_'' @ Sprintf_d index)
         else query)
      in query' #
         ensureUniqueQueryNames_loop (Suc index)
           (queryNames(Name (rootEdge query') := True)) queries)"

definition ensureUniqueQueryNames :: "('e, 'd) QueryBuilder list \<Rightarrow> ('e, 'd) QueryBuilder list" where
  "ensureUniqueQueryNames queries = ensureUniqueQueryNames_loop 0 (\<lambda>_. False) queries"



section \<open>Wire types\<close>

fun goTypeToDQLType :: "gvalue \<Rightarrow> string" where
  "goTypeToDQLType (VString _) = ''string''"
| "goTypeToDQLType (VInt _) = ''int''"
| "goTypeToDQLType (VInt8 _) = ''int''"
| "goTypeToDQLType (VInt32 _) = ''int''"
| "goTypeToDQLType (VInt64 _) = ''int''"
| "goTypeToDQLType (VFloat32 _) = ''float''"
| "goTypeToDQLType (VFloat64 _) = ''float''"
| "goTypeToDQLType (VBool _) = ''bool''"
| "goTypeToDQLType (VTimeVal _) = ''datetime''"
| "goTypeToDQLType (VTimePtr _) = ''datetime''"
| "goTypeToDQLType _ = ''string''"

section \<open>Strings, times and the variable table\<close>

text \<open>\<open>strings.Join\<close>.\<close>

fun strings_Join :: "string list \<Rightarrow> string \<Rightarrow> string" where
  "strings_Join [] sep = []"
| "strings_Join [x] sep = x"
| "strings_Join (x # y # ys) sep = x @ sep @ strings_Join (y # ys) sep"

text \<open>\<open>strings.Index\<close>: the position of the first occurrence of \<open>sep\<close>, if any.\<close>

fun strings_Index :: "string \<Rightarrow> string \<Rightarrow> nat option" where
  "strings_Index [] sep = (if sep = [] then Some 0 else None)"
| "strings_Index (c # cs) sep =
     (if take (length sep) (c # cs) = sep then Some 0
      else map_option Suc (strings_Index cs sep))"

text \<open>
  The \<open>appendInt\<close> of package \<open>time\<close>: a sign for a negative number, then the decimal
  digits, padded with zeros on the left to the given width.
\<close>

definition appendInt :: "int \<Rightarrow> nat \<Rightarrow> string" where
  "appendInt x width =
     (let ds = Sprintf_d (nat \<bar>x\<bar>)
      in (if x < 0 then ''-'' else []) @ replicate (width - length ds) (CHR ''0'') @ ds)"

text \<open>
  The zone of the layout \<open>Z07:00\<close>: \<open>Z\<close> for offset zero, else the sign, hours and
  minutes of the offset; Go's integer division truncates towards zero.
\<close>

definition formatZone :: "int \<Rightarrow> string" where
  "formatZone offset =
     (if offset = 0 then ''Z''
      else
        (let zone = (if offset < 0 then - ((- offset) div 60) else offset div 60);
             sign = (if zone < 0 then ''-'' else ''+'');
             zone' = \<bar>zone\<bar>
         in sign @ appendInt (zone' div 60) 2 @ '':'' @ appendInt (zone' mod 60) 2))"

text \<open>
  \<open>t.Format(time.RFC3339)\<close>, the layout \<open>2006-01-02T15:04:05Z07:00\<close>: the layout has no
  field for the fraction of the second.
\<close>

definition Format_RFC3339 :: "Time \<Rightarrow> string" where
  "Format_RFC3339 t =
     appendInt (year t) 4 @ ''-'' @ appendInt (int (month t)) 2 @ ''-'' @
     appendInt (int (day t)) 2 @ ''T'' @ appendInt (int (hour t)) 2 @ '':'' @
     appendInt (int (minute t)) 2 @ '':'' @ appendInt (int (second t)) 2 @
     formatZone (zoneOffset t)"

text \<open>
  \<open>toVariableValue\<close>: the textual wire form of an argument. Calling \<open>Format\<close> through a
  nil \<open>*time.Time\<close> dereferences nil and panics.
\<close>

fun toVariableValue :: "'e runtime \<Rightarrow> gvalue \<Rightarrow> failure + string" where
  "toVariableValue rt (VTimeVal val) = Inr (Format_RFC3339 val)"
| "toVariableValue rt (VTimePtr (Some val)) = Inr (Format_RFC3339 val)"
| "toVariableValue rt (VTimePtr None) = Inl (Panic ''nil pointer dereference'')"
| "toVariableValue rt val = Inr (Sprintf_v rt val)"

section \<open>Placeholders\<close>

text \<open>
  A \<open>map[int]interface{}\<close> is an association list with distinct keys: reading a missing
  key gives nil, \<open>len\<close> counts the entries, an assignment replaces or adds an entry.
\<close>

type_synonym rawVariables = "(nat \<times> gvalue) list"

definition rawLookup :: "rawVariables \<Rightarrow> nat \<Rightarrow> gvalue" where
  "rawLookup m k = (case map_of m k of None \<Rightarrow> VNil | Some v \<Rightarrow> v)"

text \<open>
  The loop of \<open>replacePlaceholders\<close>: \<open>query\<close> is the text still to scan, \<open>buf\<close> the
  buffer, \<open>i\<close> the number of markers replaced so far. Reading \<open>args[i]\<close> past the end
  of \<open>args\<close> panics.
\<close>

function replacePlaceholders_loop ::
  "(nat \<Rightarrow> gvalue \<Rightarrow> string) \<Rightarrow> gvalue list \<Rightarrow> string \<Rightarrow> string \<Rightarrow> rawVariables \<Rightarrow> nat
     \<Rightarrow> failure + (string \<times> rawVariables)" where
  "replacePlaceholders_loop transform args query buf vars i =
     (case strings_Index query ''??'' of
        None \<Rightarrow> Inr (buf @ query, vars)
      | Some p \<Rightarrow>
          (if i < length args
           then replacePlaceholders_loop transform args (drop (p + 2) query)
                  (buf @ take p query @ transform i (args ! i))
                  (AList.update i (args ! i) vars) (Suc i)
           else Inl (Panic ''index out of range'')))"
  by pat_completeness auto
termination
proof (relation "measure (\<lambda>(transform, args, query, buf, vars, i). length query)")
  show "wf (measure (\<lambda>(transform, args, query, buf, vars, i). length query))"
    by simp
next
  fix transform :: "nat \<Rightarrow> gvalue \<Rightarrow> string"
  fix args :: "gvalue list" and query buf :: string and vars :: rawVariables
  fix i p :: nat
  assume found: "strings_Index query ''??'' = Some p"
  have bound: "strings_Index s sep = Some k \<Longrightarrow> k + length sep \<le> length s" for s sep k
  proof (induction s arbitrary: k)
    case Nil
    then show ?case by (simp split: if_splits)
  next
    case (Cons c cs)
    show ?case
    proof (cases "take (length sep) (c # cs) = sep")
      case True
      with Cons.prems have "k = 0" by simp
      moreover have "length sep \<le> length (c # cs)"
      proof -
        from True have "length (take (length sep) (c # cs)) = length sep"
          by (rule arg_cong)
        then have "min (length (c # cs)) (length sep) = length sep"
          by (simp only: length_take)
        then show ?thesis by linarith
      qed
      ultimately show ?thesis by simp
    next
      case False
      with Cons.prems obtain k' where "strings_Index cs sep = Some k'" "k = Suc k'"
        by auto
      with Cons.IH [of k'] show ?thesis by simp
    qed
  qed
  from bound [OF found] have "p + 2 \<le> length query" by simp
  then show "((transform, args, drop (p + 2) query,
               buf @ take p query @ transform i (args ! i),
               AList.update i (args ! i) vars, Suc i),
              (transform, args, query, buf, vars, i))
             \<in> measure (\<lambda>(transform, args, query, buf, vars, i). length query)"
    by simp
qed

declare replacePlaceholders_loop.simps [simp del]

definition replacePlaceholders ::
  "string \<Rightarrow> gvalue list \<Rightarrow> (nat \<Rightarrow> gvalue \<Rightarrow> string) \<Rightarrow> failure + (string \<times> rawVariables)" where
  "replacePlaceholders query args transform =
     replacePlaceholders_loop transform args query [] [] 0"

section \<open>The variable table\<close>

text \<open>
  Modelled from the spec: \<open>getSortedVariables\<close> is not among the sources; the spec has
  the named references "sorted by index", so it ranges over the map, collects the keys
  and sorts them.
\<close>

definition getSortedVariables :: "'e runtime \<Rightarrow> rawVariables \<Rightarrow> nat list" where
  "getSortedVariables rt rawVars = sort (map fst (rangeOrder rt rawVars))"

text \<open>
  The loop of \<open>toVariables\<close> over the sorted keys. The value stored under the name of
  the key \<open>placeholderName\<close> is read at the loop index, as the source does; the declared
  type is read at the key. \<open>placeholders\<close> was made with \<open>len(rawVariables)\<close> slots, and
  writing past its end panics.
\<close>

fun toVariables_loop ::
  "'e runtime \<Rightarrow> rawVariables \<Rightarrow> nat \<Rightarrow> nat list \<Rightarrow> (string \<rightharpoonup> string) \<Rightarrow> string list
     \<Rightarrow> failure + ((string \<rightharpoonup> string) \<times> string list)" where
  "toVariables_loop rt rawVars index [] vs placeholders = Inr (vs, placeholders)"
| "toVariables_loop rt rawVars index (placeholderName # names) vs placeholders =
     (let variableName = ''$'' @ Sprintf_d placeholderName
      in case toVariableValue rt (rawLookup rawVars index) of
           Inl err \<Rightarrow> Inl err
         | Inr v \<Rightarrow>
             (if index < length placeholders
              then toVariables_loop rt rawVars (Suc index) names (vs(variableName \<mapsto> v))
                     (placeholders[index :=
                        ''$'' @ Sprintf_d placeholderName @ '':'' @
                        goTypeToDQLType (rawLookup rawVars placeholderName)])
              else Inl (Panic ''index out of range'')))"

definition toVariables ::
  "'e runtime \<Rightarrow> rawVariables \<Rightarrow> failure + ((string \<rightharpoonup> string) \<times> string list)" where
  "toVariables rt rawVars =
     toVariables_loop rt rawVars 0 (getSortedVariables rt rawVars) Map.empty
       (replicate (length rawVars) [])"

section \<open>Assembling the document\<close>

text \<open>
  \<open>addStatement\<close> compiles the parts in order and appends each text and its arguments;
  the first failure is returned. \<open>addOperation\<close> copies the operations into a slice of
  parts and calls it.
\<close>

fun addStatement ::
  "'e runtime \<Rightarrow> 'e edge list \<Rightarrow> string list \<times> gvalue list
     \<Rightarrow> failure + (string list \<times> gvalue list)" where
  "addStatement rt [] (statements, args) = Inr (statements, args)"
| "addStatement rt (block # parts) (statements, args) =
     (case edge_ToDQL rt block of
        Inl err \<Rightarrow> Inl err
      | Inr (statement, queryArg) \<Rightarrow>
          addStatement rt parts (statements @ [statement], args @ queryArg))"

definition addOperation ::
  "'e runtime \<Rightarrow> 'e edge list \<Rightarrow> string list \<times> gvalue list
     \<Rightarrow> failure + (string list \<times> gvalue list)" where
  "addOperation rt ops acc = addStatement rt ops acc"

text \<open>
  \<open>queryOperation.ToDQL\<close>. On a failure the source returns the empty text, a nil map
  and the error; here that is \<open>Inl\<close> of the failure.
\<close>

definition ToDQL ::
  "'e runtime \<Rightarrow> 'e queryOperation \<Rightarrow> failure + (string \<times> (string \<rightharpoonup> string))" where
  "ToDQL rt grammar =
     (let blocNames =
            map (\<lambda>block. strings_Title rt (strings_ToLower rt (GetName block)))
              (operations grammar);
          queryName = strings_Join blocNames ''_''
      in case addOperation rt (op_variables grammar) ([], []) of
           Inl err \<Rightarrow> Inl err
         | Inr acc \<Rightarrow>
        (case addOperation rt (operations grammar) acc of
           Inl err \<Rightarrow> Inl err
         | Inr (statements, args) \<Rightarrow>
        (let innerQuery = strings_Join statements '' ''
         in case replacePlaceholders innerQuery args (\<lambda>index _. ''$'' @ Sprintf_d index) of
              Inl err \<Rightarrow> Inl err
            | Inr (query, rawVars) \<Rightarrow>
           (case toVariables rt rawVars of
              Inl err \<Rightarrow> Inl err
            | Inr (vs, placeholders) \<Rightarrow>
                Inr (''query '' @ queryName @ ''('' @ strings_Join placeholders '', '' @
                     '') {'' @ '' '' @ query @ '' }'', vs)))))"

text \<open>
  \<open>QueriesToDQL\<close>: after the uniqueness step, every query adds its root edge to the
  operations and the root edges of its variables to the variables.
\<close>

definition QueriesToDQL ::
  "'e runtime \<Rightarrow> ('e, 'd) QueryBuilder list \<Rightarrow> failure + (string \<times> (string \<rightharpoonup> string))" where
  "QueriesToDQL rt queries =
     ToDQL rt
       (foldl
          (\<lambda>mainOperation query.
             mainOperation
               \<lparr>operations := operations mainOperation @ [rootEdge query],
                op_variables :=
                  op_variables mainOperation @ map rootEdge (variables query)\<rparr>)
          \<lparr>operations = [], op_variables = []\<rparr>
          (ensureUniqueQueryNames queries))"

section \<open>The document as the spec describes it\<close>

text \<open>
  The markers of a text, read from left to right without overlap: their number, and the
  text with the \<open>i\<close>-th marker replaced by \<open>key i\<close>.
\<close>

fun countMarkers :: "string \<Rightarrow> nat" where
  "countMarkers [] = 0"
| "countMarkers [c] = 0"
| "countMarkers (c # d # rest) =
     (if c = CHR ''?'' \<and> d = CHR ''?'' then Suc (countMarkers rest)
      else countMarkers (d # rest))"

fun numberMarkers :: "(nat \<Rightarrow> string) \<Rightarrow> nat \<Rightarrow> string \<Rightarrow> string" where
  "numberMarkers key i [] = []"
| "numberMarkers key i [c] = [c]"
| "numberMarkers key i (c # d # rest) =
     (if c = CHR ''?'' \<and> d = CHR ''?'' then key i @ numberMarkers key (Suc i) rest
      else c # numberMarkers key i (d # rest))"

text \<open>The texts and the arguments a list of edges compiles to, in order.\<close>

definition compiledTexts :: "'e runtime \<Rightarrow> 'e edge list \<Rightarrow> string list" where
  "compiledTexts rt edges =
     map (\<lambda>e. case edge_ToDQL rt e of Inl _ \<Rightarrow> [] | Inr (statement, _) \<Rightarrow> statement) edges"

definition compiledArgs :: "'e runtime \<Rightarrow> 'e edge list \<Rightarrow> gvalue list" where
  "compiledArgs rt edges =
     concat (map (\<lambda>e. case edge_ToDQL rt e of Inl _ \<Rightarrow> [] | Inr (_, queryArg) \<Rightarrow> queryArg) edges)"

text \<open>A \<open>range\<close> over a map visits every entry once, in some order.\<close>

definition rangeVisitsAll :: "'e runtime \<Rightarrow> bool" where
  "rangeVisitsAll rt = (\<forall>m. mset (rangeOrder rt m) = mset m)"

text \<open>
  The parts of the document in the spec's words: the root edges of the query-local
  variables of all queries, the merged name (the title-cased root names joined by
  underscores), and the declarations \<open>$i:type\<close> of the first \<open>n\<close> arguments in the
  order of their indices.
\<close>

definition auxiliaryEdges :: "('e, 'd) QueryBuilder list \<Rightarrow> 'e edge list" where
  "auxiliaryEdges queries = concat (map (\<lambda>q. map rootEdge (variables q)) queries)"

definition mergedName :: "'e runtime \<Rightarrow> ('e, 'd) QueryBuilder list \<Rightarrow> string" where
  "mergedName rt queries =
     strings_Join
       (map (\<lambda>q. strings_Title rt (strings_ToLower rt (Name (rootEdge q)))) queries) ''_''"

definition declarations :: "gvalue list \<Rightarrow> nat \<Rightarrow> string list" where
  "declarations args n =
     map (\<lambda>i. ''$'' @ Sprintf_d i @ '':'' @ goTypeToDQLType (args ! i)) [0..<n]"

section \<open>Reading a timestamp\<close>

text \<open>
  \<open>time.Parse(time.RFC3339, s)\<close> on the fields of a \<open>Time\<close>: four digits of year, two
  each of month, day, hour, minute and second with their separators, an optional
  fraction of the second, and the zone (\<open>Z\<close>, or a sign with hours and minutes). A field
  out of range (a day the month does not have, hour 24, a zone hour above 23) is an error.
\<close>

definition isDigit :: "char \<Rightarrow> bool" where
  "isDigit c = (48 \<le> (of_char c :: nat) \<and> (of_char c :: nat) \<le> 57)"

definition digitVal :: "char \<Rightarrow> nat" where
  "digitVal c = (of_char c :: nat) - 48"

definition atoi2 :: "char \<Rightarrow> char \<Rightarrow> nat" where
  "atoi2 a b = digitVal a * 10 + digitVal b"

definition isLeap :: "int \<Rightarrow> bool" where
  "isLeap y = (y mod 4 = 0 \<and> (y mod 100 \<noteq> 0 \<or> y mod 400 = 0))"

definition daysIn :: "nat \<Rightarrow> int \<Rightarrow> nat" where
  "daysIn m y =
     (if m = 2 then (if isLeap y then 29 else 28)
      else if m = 4 \<or> m = 6 \<or> m = 9 \<or> m = 11 then 30 else 31)"

text \<open>
  The fraction of the second: a point and at least one digit; digits after the ninth are
  dropped. The result is the nanoseconds and the rest of the text.
\<close>

fun scaleNanos :: "nat \<Rightarrow> nat \<Rightarrow> nat" where
  "scaleNanos 0 acc = acc"
| "scaleNanos (Suc k) acc = scaleNanos k (acc * 10)"

fun fractionDigits :: "nat \<Rightarrow> nat \<Rightarrow> string \<Rightarrow> nat \<times> string" where
  "fractionDigits n acc [] = (scaleNanos (9 - n) acc, [])"
| "fractionDigits n acc (c # cs) =
     (if isDigit c
      then fractionDigits (Suc n) (if n < 9 then acc * 10 + digitVal c else acc) cs
      else (scaleNanos (9 - n) acc, c # cs))"

definition parseFraction :: "string \<Rightarrow> failure + (nat \<times> string)" where
  "parseFraction s =
     (case s of
        c # d # rest \<Rightarrow>
          (if c = CHR ''.''
           then (if isDigit d then Inr (fractionDigits 0 0 (d # rest))
                 else Inl (Error ''parsing time: bad fraction''))
           else Inr (0, s))
      | _ \<Rightarrow> Inr (0, s))"

definition parseZone :: "string \<Rightarrow> failure + int" where
  "parseZone s =
     (if s = ''Z'' then Inr 0
      else if length s = 6 \<and> (s ! 0 = CHR ''+'' \<or> s ! 0 = CHR ''-'') \<and> isDigit (s ! 1) \<and>
              isDigit (s ! 2) \<and> s ! 3 = CHR '':'' \<and> isDigit (s ! 4) \<and> isDigit (s ! 5)
      then (if atoi2 (s ! 1) (s ! 2) < 24 \<and> atoi2 (s ! 4) (s ! 5) < 60
            then Inr ((if s ! 0 = CHR ''-'' then - 1 else 1) *
                      (int (atoi2 (s ! 1) (s ! 2)) * 3600 + int (atoi2 (s ! 4) (s ! 5)) * 60))
            else Inl (Error ''parsing time: zone out of range''))
      else Inl (Error ''parsing time: bad zone''))"

text \<open>Two digits at positions \<open>i\<close> and \<open>i + 1\<close> of a text that is long enough.\<close>

definition digits2 :: "string \<Rightarrow> nat \<Rightarrow> bool" where
  "digits2 s i = (isDigit (s ! i) \<and> isDigit (s ! Suc i))"

definition num2 :: "string \<Rightarrow> nat \<Rightarrow> nat" where
  "num2 s i = atoi2 (s ! i) (s ! Suc i)"

definition Parse_RFC3339 :: "string \<Rightarrow> failure + Time" where
  "Parse_RFC3339 s =
     (if length s < 19 then Inl (Error ''parsing time: cannot parse'')
      else if digits2 s 0 \<and> digits2 s 2 \<and> s ! 4 = CHR ''-'' \<and> digits2 s 5 \<and>
              s ! 7 = CHR ''-'' \<and> digits2 s 8 \<and> s ! 10 = CHR ''T'' \<and> digits2 s 11 \<and>
              s ! 13 = CHR '':'' \<and> digits2 s 14 \<and> s ! 16 = CHR '':'' \<and> digits2 s 17
      then
        (let y = int (num2 s 0 * 100 + num2 s 2);
             mo = num2 s 5; d = num2 s 8; h = num2 s 11; mi = num2 s 14; sec = num2 s 17
         in if 1 \<le> mo \<and> mo \<le> 12 \<and> 1 \<le> d \<and> d \<le> daysIn mo y \<and> h < 24 \<and> mi < 60 \<and>
               sec < 60
            then
              (case parseFraction (drop 19 s) of
                 Inl err \<Rightarrow> Inl err
               | Inr (ns, rest) \<Rightarrow>
                   (case parseZone rest of
                      Inl err \<Rightarrow> Inl err
                    | Inr off \<Rightarrow>
                        Inr \<lparr>year = y, month = mo, day = d, hour = h, minute = mi,
                             second = sec, nanosecond = ns, zoneOffset = off\<rparr>))
            else Inl (Error ''parsing time: field out of range''))
      else Inl (Error ''parsing time: cannot parse''))"

text \<open>
  The date/time values whose text the layout can carry and \<open>Parse\<close> accepts: a year of
  four digits, fields in range, and a zone offset of whole minutes within a day.
\<close>

definition validTime :: "Time \<Rightarrow> bool" where
  "validTime t =
     (0 \<le> year t \<and> year t \<le> 9999 \<and> 1 \<le> month t \<and> month t \<le> 12 \<and> 1 \<le> day t \<and>
      day t \<le> daysIn (month t) (year t) \<and> hour t < 24 \<and> minute t < 60 \<and> second t < 60 \<and>
      nanosecond t < 1000000000 \<and> zoneOffset t mod 60 = 0 \<and>
      - 86400 < zoneOffset t \<and> zoneOffset t < 86400)"

text \<open>
  The instant of a date/time value in nanoseconds since 1970-01-01T00:00:00Z: the days
  of its civil date, its clock, less its zone offset.
\<close>

definition daysFromCivil :: "int \<Rightarrow> int \<Rightarrow> int \<Rightarrow> int" where
  "daysFromCivil y m d =
     (let y' = (if m \<le> 2 then y - 1 else y);
          era = y' div 400;
          yoe = y' - era * 400;
          doy = (153 * (if m > 2 then m - 3 else m + 9) + 2) div 5 + d - 1;
          doe = yoe * 365 + yoe div 4 - yoe div 100 + doy
      in era * 146097 + doe - 719468)"

definition unixNano :: "Time \<Rightarrow> int" where
  "unixNano t =
     ((daysFromCivil (year t) (int (month t)) (int (day t)) * 86400 +
       int (hour t) * 3600 + int (minute t) * 60 + int (second t) - zoneOffset t)
      * 1000000000 + int (nanosecond t))"

section \<open>Responses and decoding\<close>

text \<open>
  A decoded JSON document as \<open>encoding/json\<close> gives it for \<open>interface{}\<close>; a number is
  kept as its text.
\<close>

datatype json =
    JNull
  | JBool bool
  | JNumber string
  | JString string
  | JArray "json list"
  | JObject "(string \<times> json) list"

text \<open>
  \<open>reflect.Value.String\<close>: the string itself for a string, and the type in angle
  brackets for every other value.
\<close>

fun Value_String :: "json \<Rightarrow> string" where
  "Value_String (JString s) = s"
| "Value_String JNull = ''<invalid Value>''"
| "Value_String (JBool _) = ''<bool Value>''"
| "Value_String (JNumber _) = ''<float64 Value>''"
| "Value_String (JArray _) = ''<[]interface {} Value>''"
| "Value_String (JObject _) = ''<map[string]interface {} Value>''"

text \<open>
  The decode hook of \<open>Response.Unmarshal\<close>: for a destination that is a \<open>time.Time\<close> the
  source value is read as a string and parsed as an RFC 3339 timestamp; every other
  destination receives the source value as it is.
\<close>

datatype destKind = TimeKind | OtherKind

datatype decoded = DTime Time | DFrom json

definition DecodeHook :: "json \<Rightarrow> destKind \<Rightarrow> failure + decoded" where
  "DecodeHook src dst =
     (case dst of
        TimeKind \<Rightarrow>
          (case Parse_RFC3339 (Value_String src) of
             Inl err \<Rightarrow> Inl err
           | Inr t \<Rightarrow> Inr (DTime t))
      | OtherKind \<Rightarrow> Inr (DFrom src))"

text \<open>The wire records of the client library, with the fields the code sets or reads.\<close>

record api_Response =
  Json :: string

record api_Mutation =
  SetJson :: "string option"
  DeleteJson :: "string option"
  Cond :: string
  CommitNow :: bool

datatype api_RespFormat = Request_JSON | Request_RDF

record api_Request =
  Query :: string
  Vars :: "(string \<rightharpoonup> string) option"
  ReadOnly :: bool
  BestEffort :: bool
  Mutations :: "api_Mutation list"
  Request_CommitNow :: bool
  RespFormat :: api_RespFormat

record Response =
  Raw :: api_Response
  dataKeyPath :: string

text \<open>
  The executor: its client and its ambient transaction are pointers (\<open>None\<close> is nil) to
  objects of the client library, named by a number. A transaction is the ambient one or
  a new one of the client.
\<close>

record DGoExecutor =
  client :: "nat option"
  tnx :: "nat option"
  readOnly :: bool
  bestEffort :: bool

datatype transaction = Ambient nat | NewReadOnlyTxn nat | NewTxn nat

text \<open>
  A mutation unit. Its condition is a \<open>DQLizer\<close>, given here by what its \<open>ToDQL\<close>
  returns; the attached query is a struct, so a unit with no query attached carries the
  zero \<open>QueryBuilder\<close>; the data to set and to delete are nil or a value.
\<close>

record ('e, 'd, 'v) MutationBuilder =
  condition :: "(failure + (string \<times> gvalue list)) option"
  mutation_query :: "('e, 'd) QueryBuilder"
  setData :: "'v option"
  delData :: "'v option"

text \<open>
  The collaborators of the executor, taken as parameters: \<open>IsEmptyQuery\<close> (of this
  package, not among the sources), \<open>json.Marshal\<close> and \<open>json.Unmarshal\<close>, the decoder
  of \<open>mapstructure\<close> (it is given the hook and the destination \<open>'d\<close>, writes to the
  caller's memory \<open>'s\<close> and may fail), and the transaction of the client library.
\<close>

record ('d, 's, 'v) collaborators =
  IsEmptyQuery :: "string \<Rightarrow> bool"
  json_Marshal :: "'v \<Rightarrow> failure + string"
  json_Unmarshal :: "string \<Rightarrow> failure + (string \<times> json) list"
  mapstructure_NewDecoder :: "'d \<Rightarrow> failure option"
  mapstructure_Decode ::
    "(json \<Rightarrow> destKind \<Rightarrow> failure + decoded) \<Rightarrow> 'd \<Rightarrow> json \<Rightarrow> 's \<Rightarrow> 's \<times> failure option"
  tx_Do :: "transaction \<Rightarrow> api_Request \<Rightarrow> failure + api_Response"
  tx_QueryWithVars ::
    "transaction \<Rightarrow> string \<Rightarrow> (string \<rightharpoonup> string) \<Rightarrow> failure + api_Response"
  tx_Commit :: "transaction \<Rightarrow> failure option"

text \<open>
  \<open>Response.Unmarshal\<close>: the result is the caller's memory after the call and the error,
  if any. A key missing from the parsed document reads as nil.
\<close>

definition Response_Unmarshal ::
  "('d, 's, 'v) collaborators \<Rightarrow> Response \<Rightarrow> 'd \<Rightarrow> 's \<Rightarrow> 's \<times> failure option" where
  "Response_Unmarshal co response dest store =
     (case json_Unmarshal co (Json (Raw response)) of
        Inl err \<Rightarrow> (store, Some err)
      | Inr vals \<Rightarrow>
          (case mapstructure_NewDecoder co dest of
             Some err \<Rightarrow> (store, Some err)
           | None \<Rightarrow>
               (if dataKeyPath response \<noteq> []
                then mapstructure_Decode co DecodeHook dest
                       (case map_of vals (dataKeyPath response) of
                          None \<Rightarrow> JNull
                        | Some v \<Rightarrow> v)
                       store
                else mapstructure_Decode co DecodeHook dest (JObject vals) store)))"

text \<open>
  The loop of \<open>toResponse\<close> over the queries after the uniqueness step: a query with no
  destination is skipped; the first error ends the loop and is returned.
\<close>

fun toResponse_loop ::
  "('d, 's, 'v) collaborators \<Rightarrow> api_Response \<Rightarrow> ('e, 'd) QueryBuilder list \<Rightarrow> 's
     \<Rightarrow> 's \<times> failure option" where
  "toResponse_loop co resp [] store = (store, None)"
| "toResponse_loop co resp (queryBuilder # queries) store =
     (case unmarshalInto queryBuilder of
        None \<Rightarrow> toResponse_loop co resp queries store
      | Some dest \<Rightarrow>
          (case Response_Unmarshal co
                  \<lparr>Raw = resp, dataKeyPath = Name (rootEdge queryBuilder)\<rparr> dest store of
             (store', Some err) \<Rightarrow> (store', Some err)
           | (store', None) \<Rightarrow> toResponse_loop co resp queries store'))"

definition toResponse ::
  "('d, 's, 'v) collaborators \<Rightarrow> api_Response \<Rightarrow> ('e, 'd) QueryBuilder list \<Rightarrow> 's
     \<Rightarrow> 's \<times> (failure + Response)" where
  "toResponse co resp queries store =
     (let dataPathKey =
            (if length queries = 1 then Name (rootEdge (queries ! 0)) else []);
          queryResponse = \<lparr>Raw = resp, dataKeyPath = dataPathKey\<rparr>
      in case toResponse_loop co resp (ensureUniqueQueryNames queries) store of
           (store', Some err) \<Rightarrow> (store', Inl err)
         | (store', None) \<Rightarrow> (store', Inr queryResponse))"

section \<open>The executor\<close>

definition ensureClient :: "DGoExecutor \<Rightarrow> failure option" where
  "ensureClient executor =
     (if client executor = None
      then Some (Error ''cannot execute query without setting a dqlx. use DClient() to set one'')
      else None)"

text \<open>\<open>getTnx\<close>; without an ambient transaction it calls a method of the client.\<close>

definition getTnx :: "DGoExecutor \<Rightarrow> failure + transaction" where
  "getTnx executor =
     (case tnx executor of
        Some tx \<Rightarrow> Inr (Ambient tx)
      | None \<Rightarrow>
          (case client executor of
             None \<Rightarrow> Inl (Panic ''nil pointer dereference'')
           | Some c \<Rightarrow> Inr (if readOnly executor then NewReadOnlyTxn c else NewTxn c)))"

definition mutationData ::
  "('d, 's, 'v) collaborators \<Rightarrow> ('e, 'd, 'v) MutationBuilder
     \<Rightarrow> failure + (string option \<times> string option)" where
  "mutationData co mutation =
     (case (case setData mutation of
              None \<Rightarrow> Inr None
            | Some d \<Rightarrow> map_sum id Some (json_Marshal co d)) of
        Inl err \<Rightarrow> Inl err
      | Inr setDataBytes \<Rightarrow>
          (case (case delData mutation of
                   None \<Rightarrow> Inr None
                 | Some d \<Rightarrow> map_sum id Some (json_Marshal co d)) of
             Inl err \<Rightarrow> Inl err
           | Inr deleteDataBytes \<Rightarrow> Inr (setDataBytes, deleteDataBytes)))"

text \<open>
  The loop of \<open>ExecuteMutations\<close> over the mutations. The condition is compiled and its
  arguments are dropped (the blank identifier); the attached query is appended in every
  case.
\<close>

fun ExecuteMutations_loop ::
  "('d, 's, 'v) collaborators \<Rightarrow> DGoExecutor \<Rightarrow> ('e, 'd, 'v) MutationBuilder list
     \<Rightarrow> ('e, 'd) QueryBuilder list \<Rightarrow> api_Mutation list
     \<Rightarrow> failure + (('e, 'd) QueryBuilder list \<times> api_Mutation list)" where
  "ExecuteMutations_loop co executor [] queries mutationRequests =
     Inr (queries, mutationRequests)"
| "ExecuteMutations_loop co executor (mutation # mutations) queries mutationRequests =
     (case (case condition mutation of
              None \<Rightarrow> Inr []
            | Some c \<Rightarrow>
                (case c of
                   Inl err \<Rightarrow> Inl err
                 | Inr (conditionDql, _) \<Rightarrow> Inr conditionDql)) of
        Inl err \<Rightarrow> Inl err
      | Inr cond \<Rightarrow>
          (case mutationData co mutation of
             Inl err \<Rightarrow> Inl err
           | Inr (setDataBytes, deleteDataBytes) \<Rightarrow>
               ExecuteMutations_loop co executor mutations
                 (queries @ [mutation_query mutation])
                 (mutationRequests @
                    [\<lparr>SetJson = setDataBytes, DeleteJson = deleteDataBytes, Cond = cond,
                      CommitNow = (tnx executor = None)\<rparr>])))"

text \<open>
  \<open>ExecuteMutations\<close> up to the request it sends. The error of \<open>QueriesToDQL\<close> is not
  tested in the source: after an error the text is empty and the map nil, and the code
  goes on (a panic unwinds as always). The result is the attached queries and the
  request.
\<close>

definition ExecuteMutations_request ::
  "('d, 's, 'v) collaborators \<Rightarrow> 'e runtime \<Rightarrow> DGoExecutor \<Rightarrow> ('e, 'd, 'v) MutationBuilder list
     \<Rightarrow> failure + (('e, 'd) QueryBuilder list \<times> api_Request)" where
  "ExecuteMutations_request co rt executor mutations =
     (case ensureClient executor of
        Some err \<Rightarrow> Inl err
      | None \<Rightarrow>
     (case ExecuteMutations_loop co executor mutations [] [] of
        Inl err \<Rightarrow> Inl err
      | Inr (queries, mutationRequests) \<Rightarrow>
     (case (case QueriesToDQL rt queries of
              Inl (Panic p) \<Rightarrow> Inl (Panic p)
            | Inl (Error _) \<Rightarrow> Inr ([], None)
            | Inr (q, vs) \<Rightarrow> Inr (q, Some vs)) of
        Inl err \<Rightarrow> Inl err
      | Inr (q, vs) \<Rightarrow>
          Inr (queries,
               \<lparr>Query = (if IsEmptyQuery co q then [] else q),
                Vars = (if IsEmptyQuery co q then None else vs),
                ReadOnly = readOnly executor,
                BestEffort = bestEffort executor,
                Mutations = mutationRequests,
                Request_CommitNow = (tnx executor = None),
                RespFormat = Request_JSON\<rparr>))))"

definition ExecuteMutations ::
  "('d, 's, 'v) collaborators \<Rightarrow> 'e runtime \<Rightarrow> DGoExecutor \<Rightarrow> ('e, 'd, 'v) MutationBuilder list
     \<Rightarrow> 's \<Rightarrow> 's \<times> (failure + Response)" where
  "ExecuteMutations co rt executor mutations store =
     (case ExecuteMutations_request co rt executor mutations of
        Inl err \<Rightarrow> (store, Inl err)
      | Inr (queries, request) \<Rightarrow>
          (case getTnx executor of
             Inl err \<Rightarrow> (store, Inl err)
           | Inr tx \<Rightarrow>
               (case tx_Do co tx request of
                  Inl err \<Rightarrow> (store, Inl err)
                | Inr resp \<Rightarrow> toResponse co resp queries store)))"

text \<open>\<open>ExecuteQueries\<close>, the sibling of \<open>ExecuteMutations\<close>: it returns the error of
  \<open>QueriesToDQL\<close>.\<close>

definition ExecuteQueries ::
  "('d, 's, 'v) collaborators \<Rightarrow> 'e runtime \<Rightarrow> DGoExecutor \<Rightarrow> ('e, 'd) QueryBuilder list
     \<Rightarrow> 's \<Rightarrow> 's \<times> (failure + Response)" where
  "ExecuteQueries co rt executor queries store =
     (case ensureClient executor of
        Some err \<Rightarrow> (store, Inl err)
      | None \<Rightarrow>
     (case QueriesToDQL rt queries of
        Inl err \<Rightarrow> (store, Inl err)
      | Inr (q, vs) \<Rightarrow>
     (case getTnx executor of
        Inl err \<Rightarrow> (store, Inl err)
      | Inr tx \<Rightarrow>
     (case tx_QueryWithVars co tx q vs of
        Inl err \<Rightarrow> (store, Inl err)
      | Inr resp \<Rightarrow>
     (case (if readOnly executor then None else tx_Commit co tx) of
        Some err \<Rightarrow> (store, Inl err)
      | None \<Rightarrow> toResponse co resp queries store)))))"

text \<open>
  A mutation unit with the arguments of its condition thrown away, and the text its
  condition compiles to (empty without a condition).
\<close>

definition discardConditionArgs :: "('e, 'd, 'v) MutationBuilder \<Rightarrow> ('e, 'd, 'v) MutationBuilder" where
  "discardConditionArgs mutation =
     mutation\<lparr>condition :=
       map_option (map_sum id (\<lambda>(conditionDql, _). (conditionDql, []))) (condition mutation)\<rparr>"

definition conditionText :: "('e, 'd, 'v) MutationBuilder \<Rightarrow> string" where
  "conditionText mutation =
     (case condition mutation of
        Some (Inr (conditionDql, _)) \<Rightarrow> conditionDql
      | _ \<Rightarrow> [])"

section \<open>Sample inputs\<close>

text \<open>
  A runtime for concrete runs: an edge compiles to a block that filters on one argument
  taken from its payload, an edge named \<open>bad\<close> fails to compile; titles and lower case
  are those of ASCII names; a range visits a map from its last entry to its first.
\<close>

definition asciiToLower :: "string \<Rightarrow> string" where
  "asciiToLower s =
     map (\<lambda>c. if 65 \<le> (of_char c :: nat) \<and> (of_char c :: nat) \<le> 90
               then char_of ((of_char c :: nat) + 32) else c) s"

definition asciiTitle :: "string \<Rightarrow> string" where
  "asciiTitle s =
     (case s of
        [] \<Rightarrow> []
      | c # cs \<Rightarrow>
          (if 97 \<le> (of_char c :: nat) \<and> (of_char c :: nat) \<le> 122
           then char_of ((of_char c :: nat) - 32) else c) # cs)"

definition sampleRuntime :: "gvalue runtime" where
  "sampleRuntime =
     \<lparr>edge_ToDQL =
        (\<lambda>e. if Name e = ''bad'' then Inl (Error ''cannot compile'')
              else Inr (Name e @ ''(func: eq(name, ??)) { uid }'', [payload e])),
      strings_Title = asciiTitle,
      strings_ToLower = asciiToLower,
      Sprintf_v = (\<lambda>v. case v of VString s \<Rightarrow> s | _ \<Rightarrow> ''?''),
      rangeOrder = rev\<rparr>"

definition sampleQuery :: "string \<Rightarrow> gvalue \<Rightarrow> (gvalue, nat) QueryBuilder list
    \<Rightarrow> nat option \<Rightarrow> (gvalue, nat) QueryBuilder" where
  "sampleQuery n arg vars dest = QueryBuilder \<lparr>Name = n, payload = arg\<rparr> vars dest"

text \<open>
  Collaborators for concrete runs: the response body \<open>doc\<close> parses to a document with
  the keys \<open>people\<close> (a string), \<open>pets\<close> (a number) and \<open>joined\<close> (a timestamp); the
  destinations are cells of a memory that hold strings, so decoding anything but a string
  into one fails; the text of a batch with no query counts as empty.
\<close>

definition sampleCollaborators :: "(nat, nat \<rightharpoonup> json, string) collaborators" where
  "sampleCollaborators =
     \<lparr>IsEmptyQuery = (\<lambda>q. q = ''query () {  }''),
      json_Marshal = (\<lambda>d. Inr d),
      json_Unmarshal =
        (\<lambda>bytes. if bytes = ''doc''
                  then Inr [(''people'', JString ''Ann''), (''pets'', JNumber ''3''),
                            (''joined'', JString ''2021-01-02T00:00:00Z'')]
                  else Inl (Error ''invalid character'')),
      mapstructure_NewDecoder = (\<lambda>_. None),
      mapstructure_Decode =
        (\<lambda>hook dest v store.
           case v of
             JString s \<Rightarrow> (store(dest \<mapsto> v), None)
           | _ \<Rightarrow> (store, Some (Error ''expected a string''))),
      tx_Do = (\<lambda>_ _. Inr \<lparr>Json = ''doc''\<rparr>),
      tx_QueryWithVars = (\<lambda>_ _ _. Inr \<lparr>Json = ''doc''\<rparr>),
      tx_Commit = (\<lambda>_. None)\<rparr>"

definition sampleExecutor :: DGoExecutor where
  "sampleExecutor = \<lparr>client = Some 0, tnx = None, readOnly = False, bestEffort = False\<rparr>"

definition sampleMutation ::
  "(failure + (string \<times> gvalue list)) option \<Rightarrow> (gvalue, nat) QueryBuilder
     \<Rightarrow> (gvalue, nat, string) MutationBuilder" where
  "sampleMutation c q = \<lparr>condition = c, mutation_query = q, setData = Some ''{}'', delData = None\<rparr>"

section \<open>Properties of name uniqueness\<close>




lemma digit_mem: "d < 10 \<Longrightarrow> digit d \<in> set ''0123456789''"
  unfolding digit_def using nth_mem [of d "''0123456789''"] by simp

lemma Sprintf_d_digits: "set (Sprintf_d n) \<subseteq> set ''0123456789''"
proof (induction n rule: Sprintf_d.induct)
  case (1 n)
  show ?case
  proof (cases "n < 10")
    case True
    then show ?thesis using digit_mem [of n] by (subst Sprintf_d.simps) simp
  next
    case False
    have "n mod 10 < 10" by simp
    then have "digit (n mod 10) \<in> set ''0123456789''" by (rule digit_mem)
    with 1 False show ?thesis by (subst Sprintf_d.simps) simp
  qed
qed

lemma Sprintf_d_no_underscore: "CHR ''_'' \<notin> set (Sprintf_d n)"
  using Sprintf_d_digits [of n] by auto











section \<open>Properties of wire-type inference\<close>

text \<open>
  C4 at the 16-bit signed integers: the type switch lists \<open>int\<close>, \<open>int8\<close>, \<open>int32\<close> and
  \<open>int64\<close> and leaves \<open>int16\<close> out, so an \<open>int16\<close> argument falls to the default and is
  declared a string, while its siblings are declared \<open>int\<close>.
\<close>

theorem goTypeToDQLType_int16:
  "goTypeToDQLType (VInt16 5) = ''string'' \<and>
   goTypeToDQLType (VInt 5) = ''int'' \<and> goTypeToDQLType (VInt8 5) = ''int'' \<and>
   goTypeToDQLType (VInt32 5) = ''int'' \<and> goTypeToDQLType (VInt64 5) = ''int''"
  by simp

section \<open>Properties of placeholder replacement\<close>

lemma Index_None:
  "strings_Index q ''??'' = None \<Longrightarrow> countMarkers q = 0 \<and> numberMarkers key i q = q"
proof (induction q rule: countMarkers.induct)
  case 1
  then show ?case by simp
next
  case (2 c)
  then show ?case by simp
next
  case (3 c d rest)
  then show ?case by (auto split: if_splits)
qed

lemma Index_Some:
  "strings_Index q ''??'' = Some p \<Longrightarrow>
   countMarkers q = Suc (countMarkers (drop (p + 2) q)) \<and>
   numberMarkers key i q = take p q @ key i @ numberMarkers key (Suc i) (drop (p + 2) q)"
proof (induction q arbitrary: p rule: countMarkers.induct)
  case 1
  then show ?case by simp
next
  case (2 c)
  then show ?case by (simp split: if_splits)
next
  case (3 c d rest)
  show ?case
  proof (cases "c = CHR ''?'' \<and> d = CHR ''?''")
    case True
    with 3(3) have "p = 0" by simp
    with True show ?thesis by simp
  next
    case False
    with 3(3) obtain p' where p': "strings_Index (d # rest) ''??'' = Some p'" "p = Suc p'"
      by (auto split: if_splits)
    from 3(2) [OF False p'(1)] False p'(2) show ?thesis by auto
  qed
qed

lemma replacePlaceholders_loop_char:
  "i \<le> length args \<Longrightarrow>
   replacePlaceholders_loop tr args q buf vars i =
     (if i + countMarkers q \<le> length args
      then Inr (buf @ numberMarkers (\<lambda>j. tr j (args ! j)) i q,
                foldl (\<lambda>m j. AList.update j (args ! j) m) vars [i..<i + countMarkers q])
      else Inl (Panic ''index out of range''))"
proof (induction tr args q buf vars i rule: replacePlaceholders_loop.induct)
  case (1 tr args q buf vars i)
  show ?case
  proof (cases "strings_Index q ''??''")
    case None
    from Index_None [OF None] 1(2) None show ?thesis
      by (subst replacePlaceholders_loop.simps) simp
  next
    case (Some p)
    note S = Index_Some [OF Some, of "\<lambda>j. tr j (args ! j)" i]
    show ?thesis
    proof (cases "i < length args")
      case True
      then have le: "Suc i \<le> length args" by simp
      have upt: "[i..<Suc (i + n)] = i # [Suc i..<Suc (i + n)]" for n
        by (simp add: upt_conv_Cons del: upt_Suc)
      from 1(1) [OF Some True le] S True Some show ?thesis
        by (subst replacePlaceholders_loop.simps) (simp add: upt del: upt_Suc)
    next
      case False
      with S Some show ?thesis
        by (subst replacePlaceholders_loop.simps) simp
    qed
  qed
qed

lemma update_fresh: "k \<notin> fst ` set al \<Longrightarrow> AList.update k v al = al @ [(k, v)]"
  by (induction al) auto

lemma foldl_update_fresh:
  "\<forall>k \<in> fst ` set al. k < i \<Longrightarrow>
   foldl (\<lambda>m j. AList.update j (f j) m) al [i..<i + n] = al @ map (\<lambda>j. (j, f j)) [i..<i + n]"
proof (induction n)
  case 0
  then show ?case by simp
next
  case (Suc n)
  have "i + n \<notin> fst ` set (al @ map (\<lambda>j. (j, f j)) [i..<i + n])"
    using Suc.prems by (auto simp: image_iff)
  from update_fresh [OF this] Suc show ?case by simp
qed

lemma replacePlaceholders_char:
  "replacePlaceholders query args transform =
     (if countMarkers query \<le> length args
      then Inr (numberMarkers (\<lambda>i. transform i (args ! i)) 0 query,
                map (\<lambda>i. (i, args ! i)) [0..<countMarkers query])
      else Inl (Panic ''index out of range''))"
  unfolding replacePlaceholders_def
  using replacePlaceholders_loop_char [of 0 args transform query "[]" "[]"]
        foldl_update_fresh [of "[]" 0 "\<lambda>j. args ! j" "countMarkers query"]
  by simp

text \<open>
  C10. \<open>replacePlaceholders\<close> returns exactly when the text has no more markers than
  there are arguments (markers counted from left to right without overlap); otherwise
  reading \<open>args[i]\<close> panics with an index out of range. When it returns, the \<open>i\<close>-th
  marker from the left is replaced by the key of index \<open>i\<close> (in \<open>ToDQL\<close>: \<open>$i\<close>), and
  the variable table holds the arguments \<open>0\<close> up to the number of markers and no others:
  arguments beyond the markers are left out.
\<close>

theorem replacePlaceholders_total_iff_enough_args:
  "replacePlaceholders query args transform =
     (if countMarkers query \<le> length args
      then Inr (numberMarkers (\<lambda>i. transform i (args ! i)) 0 query,
                map (\<lambda>i. (i, args ! i)) [0..<countMarkers query])
      else Inl (Panic ''index out of range''))"
  by (rule replacePlaceholders_char)

section \<open>Properties of the assembled document\<close>

lemma addStatement_Inr:
  "addStatement rt es (st, ar) = Inr (st', ar') \<Longrightarrow>
   st' = st @ compiledTexts rt es \<and> ar' = ar @ compiledArgs rt es"
proof (induction es arbitrary: st ar)
  case Nil
  then show ?case by (simp add: compiledTexts_def compiledArgs_def)
next
  case (Cons e es)
  from Cons.prems obtain s a where e: "edge_ToDQL rt e = Inr (s, a)"
    by (auto split: sum.splits)
  with Cons.prems have "addStatement rt es (st @ [s], ar @ a) = Inr (st', ar')" by simp
  from Cons.IH [OF this] e show ?case
    by (simp add: compiledTexts_def compiledArgs_def)
qed


lemma foldl_mainOperation:
  "foldl (\<lambda>mainOperation query.
       mainOperation\<lparr>operations := operations mainOperation @ [rootEdge query],
         op_variables := op_variables mainOperation @ map rootEdge (variables query)\<rparr>)
     \<lparr>operations = os, op_variables = vs\<rparr> qs =
   \<lparr>operations = os @ map rootEdge qs,
    op_variables = vs @ concat (map (\<lambda>q. map rootEdge (variables q)) qs)\<rparr>"
  by (induction qs arbitrary: os vs) simp_all

lemma sort_keys_perm:
  assumes "mset xs = mset ys"
  shows "sort (map fst xs) = sort (map fst (ys :: (nat \<times> 'a) list))"
proof -
  have "mset (sort (map fst ys)) = mset (map fst xs)"
    using assms by (metis mset_map mset_sort)
  then show ?thesis
    by (rule properties_for_sort) simp
qed

lemma getSortedVariables_sorted:
  "rangeVisitsAll rt \<Longrightarrow> getSortedVariables rt raw = sort (map fst raw)"
  unfolding getSortedVariables_def rangeVisitsAll_def
  by (rule sort_keys_perm) simp

lemma getSortedVariables_upt:
  "rangeVisitsAll rt \<Longrightarrow> getSortedVariables rt (map (\<lambda>i. (i, f i)) [0..<n]) = [0..<n]"
proof -
  assume "rangeVisitsAll rt"
  then have "getSortedVariables rt (map (\<lambda>i. (i, f i)) [0..<n]) =
      sort (map fst (map (\<lambda>i. (i, f i)) [0..<n]))"
    by (rule getSortedVariables_sorted)
  also have "map fst (map (\<lambda>i. (i, f i)) [0..<n]) = [0..<n]"
    by (simp add: comp_def)
  also have "sort [0..<n] = [0..<n]"
    by (simp add: sorted_sort_id)
  finally show ?thesis .
qed






lemma toVariables_loop_placeholders:
  "toVariables_loop rt raw k [k..<n] vs phs = Inr (vs', phs') \<Longrightarrow> length phs = n \<Longrightarrow>
   phs' = take k phs @
     map (\<lambda>i. ''$'' @ Sprintf_d i @ '':'' @ goTypeToDQLType (rawLookup raw i)) [k..<n]"
proof (induction "n - k" arbitrary: k vs phs)
  case 0
  then show ?case by simp
next
  case (Suc d)
  then have kn: "k < n" by simp
  then have upt: "[k..<n] = k # [Suc k..<n]" by (rule upt_conv_Cons)
  from Suc.prems(1) obtain v where v: "toVariableValue rt (rawLookup raw k) = Inr v"
    unfolding upt by (auto simp: Let_def split: sum.splits)
  let ?phs = "phs[k := ''$'' @ Sprintf_d k @ '':'' @ goTypeToDQLType (rawLookup raw k)]"
  from Suc.prems v kn
  have step: "toVariables_loop rt raw (Suc k) [Suc k..<n] (vs(''$'' @ Sprintf_d k \<mapsto> v)) ?phs
      = Inr (vs', phs')"
    unfolding upt by (simp add: Let_def)
  have d: "d = n - Suc k" using Suc.hyps(2) by simp
  have len: "length ?phs = n" using Suc.prems(2) by simp
  from Suc.hyps(1) [OF d step len]
  have "phs' = take (Suc k) ?phs @
     map (\<lambda>i. ''$'' @ Sprintf_d i @ '':'' @ goTypeToDQLType (rawLookup raw i)) [Suc k..<n]" .
  moreover have "take (Suc k) ?phs =
      take k phs @ [''$'' @ Sprintf_d k @ '':'' @ goTypeToDQLType (rawLookup raw k)]"
    using kn Suc.prems(2) by (simp add: take_Suc_conv_app_nth)
  ultimately show ?case unfolding upt by simp
qed

lemma rawLookup_upt:
  "i < n \<Longrightarrow> rawLookup (map (\<lambda>i. (i, f i)) [0..<n]) i = f i"
proof -
  assume "i < n"
  then have "map_of (map (\<lambda>i. (i, f i)) [0..<n]) i = Some (f i)"
    by (simp add: map_of_map_restrict restrict_map_def)
  then show ?thesis by (simp add: rawLookup_def)
qed

lemma toVariables_placeholders:
  assumes "rangeVisitsAll rt"
    and "toVariables rt (map (\<lambda>i. (i, f i)) [0..<n]) = Inr (vs, phs)"
  shows "phs = map (\<lambda>i. ''$'' @ Sprintf_d i @ '':'' @ goTypeToDQLType (f i)) [0..<n]"
proof -
  let ?raw = "map (\<lambda>i. (i, f i)) [0..<n]"
  from assms have "toVariables_loop rt ?raw 0 [0..<n] Map.empty (replicate n []) = Inr (vs, phs)"
    by (simp add: toVariables_def getSortedVariables_upt)
  from toVariables_loop_placeholders [OF this]
  have "phs = map (\<lambda>i. ''$'' @ Sprintf_d i @ '':'' @ goTypeToDQLType (rawLookup ?raw i)) [0..<n]"
    by simp
  also have "\<dots> = map (\<lambda>i. ''$'' @ Sprintf_d i @ '':'' @ goTypeToDQLType (f i)) [0..<n]"
    by (rule map_cong) (simp_all add: rawLookup_upt)
  finally show ?thesis .
qed

text \<open>
  C6. Whenever the assembly succeeds (and a range over a map visits each entry once),
  the text is \<open>query Name(declarations) { body }\<close>: the name is the merged name of the
  queries after the uniqueness step (root names in lower case, title-cased, joined by
  underscores); the body is the texts compiled from the root edges of all query-local
  variables followed by those compiled from all root edges, joined by single spaces, with
  the markers numbered \<open>$0, $1, \<dots>\<close> from the left; the declarations are \<open>$i:type\<close> in
  increasing order of \<open>i\<close>, one for each marker, joined by a comma and a space.
\<close>

theorem QueriesToDQL_document:
  assumes r: "rangeVisitsAll rt"
    and q: "QueriesToDQL rt queries = Inr (text, vs)"
  shows "text =
      ''query '' @ mergedName rt (ensureUniqueQueryNames queries) @ ''('' @
      strings_Join
        (declarations
           (compiledArgs rt (auxiliaryEdges (ensureUniqueQueryNames queries) @
              map rootEdge (ensureUniqueQueryNames queries)))
           (countMarkers
              (strings_Join
                 (compiledTexts rt (auxiliaryEdges (ensureUniqueQueryNames queries) @
                    map rootEdge (ensureUniqueQueryNames queries))) '' '')))
        '', '' @
      '') { '' @
      numberMarkers (\<lambda>i. ''$'' @ Sprintf_d i) 0
        (strings_Join
           (compiledTexts rt (auxiliaryEdges (ensureUniqueQueryNames queries) @
              map rootEdge (ensureUniqueQueryNames queries))) '' '') @
      '' }''"
proof -
  let ?qs = "ensureUniqueQueryNames queries"
  let ?aux = "auxiliaryEdges ?qs"
  let ?roots = "map rootEdge ?qs"
  let ?g = "\<lparr>operations = ?roots, op_variables = ?aux\<rparr>"
  from q have t: "ToDQL rt ?g = Inr (text, vs)"
    unfolding QueriesToDQL_def auxiliaryEdges_def
    using foldl_mainOperation [of "[]" "[]" ?qs] by simp
  from t obtain st1 ar1 where a1: "addStatement rt ?aux ([], []) = Inr (st1, ar1)"
    unfolding ToDQL_def addOperation_def by (auto simp: Let_def split: sum.splits)
  from t a1 obtain st ar where a2: "addStatement rt ?roots (st1, ar1) = Inr (st, ar)"
    unfolding ToDQL_def addOperation_def by (auto simp: Let_def split: sum.splits)
  from addStatement_Inr [OF a1] addStatement_Inr [OF a2]
  have st: "st = compiledTexts rt (?aux @ ?roots)" and ar: "ar = compiledArgs rt (?aux @ ?roots)"
    by (simp_all add: compiledTexts_def compiledArgs_def)
  let ?body = "strings_Join st '' ''"
  from t a1 a2 obtain query raw
    where rp: "replacePlaceholders ?body ar (\<lambda>index _. ''$'' @ Sprintf_d index) = Inr (query, raw)"
    unfolding ToDQL_def addOperation_def by (auto simp: Let_def split: sum.splits)
  from rp have cnt: "countMarkers ?body \<le> length ar"
    and query: "query = numberMarkers (\<lambda>i. ''$'' @ Sprintf_d i) 0 ?body"
    and raw: "raw = map (\<lambda>i. (i, ar ! i)) [0..<countMarkers ?body]"
    unfolding replacePlaceholders_char by (simp_all split: if_splits)
  from t a1 a2 rp obtain phs where tv: "toVariables rt raw = Inr (vs, phs)"
    and doc: "text = ''query '' @
        strings_Join (map (\<lambda>block. strings_Title rt (strings_ToLower rt (GetName block))) ?roots) ''_''
        @ ''('' @ strings_Join phs '', '' @ '') {'' @ '' '' @ query @ '' }''"
    unfolding ToDQL_def addOperation_def by (auto simp: Let_def split: sum.splits)
  from toVariables_placeholders [OF r tv [unfolded raw]]
  have phs: "phs = declarations ar (countMarkers ?body)"
    by (simp add: declarations_def)
  have name: "strings_Join (map (\<lambda>block. strings_Title rt (strings_ToLower rt (GetName block))) ?roots) ''_''
      = mergedName rt ?qs"
    by (simp add: mergedName_def GetName_def comp_def)
  show ?thesis
    unfolding doc name phs query st ar by simp
qed

theorem QueriesToDQL_document_witness:
  "rangeVisitsAll sampleRuntime \<and>
   (\<exists>vs. QueriesToDQL sampleRuntime
       [sampleQuery ''person'' (VString ''Ann'') [sampleQuery ''pets'' (VInt16 3) [] None] None,
        sampleQuery ''person'' (VBool True) [] None] =
     Inr (''query Person_Person_1($0:string, $1:string, $2:bool) { pets(func: eq(name, $0)) { uid } person(func: eq(name, $1)) { uid } person_1(func: eq(name, $2)) { uid } }'', vs))"
proof -
  let ?qs = "[sampleQuery ''person'' (VString ''Ann'') [sampleQuery ''pets'' (VInt16 3) [] None] None,
        sampleQuery ''person'' (VBool True) [] None]"
  let ?doc = "''query Person_Person_1($0:string, $1:string, $2:bool) { pets(func: eq(name, $0)) { uid } person(func: eq(name, $1)) { uid } person_1(func: eq(name, $2)) { uid } }''"
  have r: "rangeVisitsAll sampleRuntime"
    by (simp add: rangeVisitsAll_def sampleRuntime_def)
  have "map_sum id fst (QueriesToDQL sampleRuntime ?qs) = Inr ?doc"
    by code_simp
  then obtain vs where q: "QueriesToDQL sampleRuntime ?qs = Inr (?doc, vs)"
    by (cases "QueriesToDQL sampleRuntime ?qs") auto
  from QueriesToDQL_document [OF r q] r q show ?thesis by blast
qed

section \<open>Determinism of the compilation\<close>



section \<open>Properties of the executor\<close>

lemma mutationData_discard:
  "mutationData co (discardConditionArgs mutation) = mutationData co mutation"
  by (simp add: mutationData_def discardConditionArgs_def cong: sum.case_cong)

lemma ExecuteMutations_loop_discard:
  "ExecuteMutations_loop co executor (map discardConditionArgs mutations) queries reqs =
   ExecuteMutations_loop co executor mutations queries reqs"
proof (induction mutations arbitrary: queries reqs)
  case Nil
  show ?case by simp
next
  case (Cons m ms)
  have c: "(case condition (discardConditionArgs m) of
              None \<Rightarrow> Inr []
            | Some c \<Rightarrow> (case c of Inl err \<Rightarrow> Inl err | Inr (conditionDql, _) \<Rightarrow> Inr conditionDql)) =
           (case condition m of
              None \<Rightarrow> Inr []
            | Some c \<Rightarrow> (case c of Inl err \<Rightarrow> Inl err | Inr (conditionDql, _) \<Rightarrow> Inr conditionDql))"
    by (simp add: discardConditionArgs_def split: option.splits sum.splits prod.splits)
  have q: "mutation_query (discardConditionArgs m) = mutation_query m"
    by (simp add: discardConditionArgs_def)
  show ?case
    by (simp only: list.map ExecuteMutations_loop.simps c q mutationData_discard Cons.IH)
qed

lemma ExecuteMutations_loop_Inr:
  "ExecuteMutations_loop co executor mutations queries reqs = Inr (queries', reqs') \<Longrightarrow>
   queries' = queries @ map mutation_query mutations \<and>
   map Cond reqs' = map Cond reqs @ map conditionText mutations"
proof (induction mutations arbitrary: queries reqs)
  case Nil
  then show ?case by simp
next
  case (Cons m ms)
  from Cons.prems obtain cond where c:
    "(case condition m of
        None \<Rightarrow> Inr []
      | Some c \<Rightarrow> (case c of Inl err \<Rightarrow> Inl err | Inr (conditionDql, _) \<Rightarrow> Inr conditionDql)) =
     (Inr cond :: failure + string)"
    by (auto split: sum.splits)
  then have ct: "conditionText m = cond"
    by (auto simp: conditionText_def split: option.splits sum.splits prod.splits)
  from Cons.prems c obtain sd dd where d: "mutationData co m = Inr (sd, dd)"
    by (auto split: sum.splits)
  from Cons.prems c d
  have "ExecuteMutations_loop co executor ms (queries @ [mutation_query m])
          (reqs @ [\<lparr>SetJson = sd, DeleteJson = dd, Cond = cond, CommitNow = (tnx executor = None)\<rparr>])
        = Inr (queries', reqs')"
    by simp
  from Cons.IH [OF this] ct show ?case by simp
qed

lemma ExecuteMutations_request_discard:
  "ExecuteMutations_request co rt executor (map discardConditionArgs mutations) =
   ExecuteMutations_request co rt executor mutations"
  unfolding ExecuteMutations_request_def ExecuteMutations_loop_discard by (rule refl)

lemma ExecuteMutations_request_Inr:
  assumes "ExecuteMutations_request co rt executor mutations = Inr (queries, request)"
  shows "queries = map mutation_query mutations"
    and "map Cond (Mutations request) = map conditionText mutations"
    and "IsEmptyQuery co (case QueriesToDQL rt queries of Inr (q, _) \<Rightarrow> q | Inl _ \<Rightarrow> []) \<Longrightarrow>
         Query request = [] \<and> Vars request = None"
proof -
  from assms obtain qs reqs where l: "ExecuteMutations_loop co executor mutations [] [] = Inr (qs, reqs)"
    by (auto simp: ExecuteMutations_request_def split: option.splits sum.splits)
  from ExecuteMutations_loop_Inr [OF l]
  have qs: "qs = map mutation_query mutations" and cs: "map Cond reqs = map conditionText mutations"
    by simp_all
  from assms l have q: "queries = qs" and m: "Mutations request = reqs"
    by (auto simp: ExecuteMutations_request_def split: option.splits sum.splits failure.splits)
  from q qs show "queries = map mutation_query mutations" by simp
  from m cs show "map Cond (Mutations request) = map conditionText mutations" by simp
  assume "IsEmptyQuery co (case QueriesToDQL rt queries of Inr (q, _) \<Rightarrow> q | Inl _ \<Rightarrow> [])"
  with assms l q show "Query request = [] \<and> Vars request = None"
    by (auto simp: ExecuteMutations_request_def split: option.splits sum.splits failure.splits if_splits)
qed


text \<open>
  C2 at a batch whose attached query does not compile. \<open>QueriesToDQL\<close> returns the
  error; \<open>ExecuteMutations\<close> does not test it, sends the request with an empty query text
  and returns the response, where the claim has the error returned. The sibling
  \<open>ExecuteQueries\<close> returns the error on the same query.
\<close>

theorem ExecuteMutations_swallows_compile_error:
  "map_sum id fst (QueriesToDQL sampleRuntime [sampleQuery ''bad'' VNil [] None])
     = Inl (Error ''cannot compile'') \<and>
   snd (ExecuteMutations sampleCollaborators sampleRuntime sampleExecutor
          [sampleMutation None (sampleQuery ''bad'' VNil [] None)] Map.empty)
     = Inr \<lparr>Raw = \<lparr>Json = ''doc''\<rparr>, dataKeyPath = ''bad''\<rparr> \<and>
   map_sum id (\<lambda>(qs, request). Query request)
     (ExecuteMutations_request sampleCollaborators sampleRuntime sampleExecutor
        [sampleMutation None (sampleQuery ''bad'' VNil [] None)]) = Inr [] \<and>
   snd (ExecuteQueries sampleCollaborators sampleRuntime sampleExecutor
          [sampleQuery ''bad'' VNil [] None] Map.empty)
     = Inl (Error ''cannot compile'')"
  by code_simp






text \<open>
  C9. The arguments a condition compiles to are discarded: throwing them away beforehand
  changes neither the request nor the result of \<open>ExecuteMutations\<close>, so they never reach
  the variable table; and the \<open>Cond\<close> of each mutation request is the text the condition
  compiled to, markers included.
\<close>

theorem ExecuteMutations_discards_condition_args:
  "ExecuteMutations_request co rt executor (map discardConditionArgs mutations) =
     ExecuteMutations_request co rt executor mutations \<and>
   ExecuteMutations co rt executor (map discardConditionArgs mutations) store =
     ExecuteMutations co rt executor mutations store \<and>
   (ExecuteMutations_request co rt executor mutations = Inr (queries, request) \<longrightarrow>
      map Cond (Mutations request) = map conditionText mutations)"
proof -
  have "ExecuteMutations co rt executor (map discardConditionArgs mutations) store =
     ExecuteMutations co rt executor mutations store"
    unfolding ExecuteMutations_def ExecuteMutations_request_discard by (rule refl)
  with ExecuteMutations_request_discard [of co rt executor mutations]
    ExecuteMutations_request_Inr(2) [of co rt executor mutations queries request]
  show ?thesis by blast
qed

theorem ExecuteMutations_discards_condition_args_witness:
  "\<exists>queries request.
     ExecuteMutations_request sampleCollaborators sampleRuntime sampleExecutor
       [sampleMutation (Some (Inr (''eq(name, ??)'', [VString ''Ann''])))
          (sampleQuery ''people'' (VString ''Bob'') [] None)] = Inr (queries, request) \<and>
     map Cond (Mutations request) = [''eq(name, ??)''] \<and>
     Query request = ''query People($0:string) { people(func: eq(name, $0)) { uid } }'' \<and>
     map_option (\<lambda>vs. (vs ''$0'', vs ''$1'')) (Vars request) = Some (Some ''Bob'', None)"
proof -
  let ?r = "ExecuteMutations_request sampleCollaborators sampleRuntime sampleExecutor
       [sampleMutation (Some (Inr (''eq(name, ??)'', [VString ''Ann''])))
          (sampleQuery ''people'' (VString ''Bob'') [] None)]"
  have "map_sum id (\<lambda>(queries, request). (map Cond (Mutations request), Query request,
          map_option (\<lambda>vs. (vs ''$0'', vs ''$1'')) (Vars request))) ?r
        = Inr ([''eq(name, ??)''], ''query People($0:string) { people(func: eq(name, $0)) { uid } }'',
               Some (Some ''Bob'', None))"
    by code_simp
  then obtain queries request where r: "?r = Inr (queries, request)"
    and c: "map Cond (Mutations request) = [''eq(name, ??)'']"
      "Query request = ''query People($0:string) { people(func: eq(name, $0)) { uid } }''"
      "map_option (\<lambda>vs. (vs ''$0'', vs ''$1'')) (Vars request) = Some (Some ''Bob'', None)"
    by (cases ?r) auto
  from ExecuteMutations_discards_condition_args
         [of sampleCollaborators sampleRuntime sampleExecutor
             "[sampleMutation (Some (Inr (''eq(name, ??)'', [VString ''Ann''])))
                 (sampleQuery ''people'' (VString ''Bob'') [] None)]"
             "Map.empty :: nat \<rightharpoonup> json" queries request] r c
  show ?thesis by (intro exI [of _ queries] exI [of _ request]) simp
qed

end
